theory Spec2Isabelle
  imports Complex_Main
begin

section \<open>Conventions of the embedding\<close>

text \<open>
  The Python sources \<^verbatim>\<open>dataset/utils.py\<close> and \<^verbatim>\<open>dataset/process_osm_data.py\<close> are
  embedded function by function, under their own names.

  \<^item> Python floats are read as real numbers: rounding that moves a result in its last
    digits is idealised away. Where numpy produces a special value instead of raising
    (a division by zero, an inverse cosine outside its domain), the value is kept in the
    type \<open>npfloat\<close>; the quotient that enters the inverse cosine is the one the float
    division computes, a parameter, since a quotient rounded above \<open>1\<close> turns the pitch
    into NaN.
  \<^item> An exception is a value \<open>Inl e\<close> of a sum type; a normal return is \<open>Inr v\<close>.
  \<^item> Calls into third-party libraries and the outside world (utm, pyproj, shapely's WKT
    reader, requests, the file system, float formatting) are parameters of the functions
    that use them. Calls with an effect are recorded, in order, in a list of effects.
\<close>

datatype exn =
    IndexError
  | KeyError string
  | AttributeError
  | TypeError
  | HTTPError nat
  | External string

section \<open>Polygon area (utils.py, lines 29 to 60)\<close>

text \<open>A vertex is a pair (longitude, latitude); a ring is the coordinate sequence of a
  shapely LinearRing; a polygon has an exterior ring and a list of interior rings.\<close>

type_synonym vertex = "real \<times> real"
type_synonym ring = "vertex list"

record polygon =
  exterior :: ring
  interiors :: "ring list"

text \<open>\<^verbatim>\<open>utm.from_latlon(latitude, longitude)\<close>: the easting and northing of a point, or an
  exception for a point outside the range of the projection. The zone number and letter
  it also returns are discarded by the caller and left out.\<close>

type_synonym from_latlon = "real \<Rightarrow> real \<Rightarrow> exn + (real \<times> real)"

text \<open>Modelled from the spec: shapely's \<^verbatim>\<open>Polygon(shell).area\<close> is library code outside
  the repository; the spec gives it as the shoelace (signed area) formula on the
  coordinates, in absolute value.\<close>

fun shoelace :: "(real \<times> real) list \<Rightarrow> real" where
  "shoelace (p # q # ps) = (fst p * snd q - fst q * snd p) + shoelace (q # ps)"
| "shoelace ps = 0"

definition Polygon_area :: "(real \<times> real) list \<Rightarrow> real" where
  "Polygon_area shell = \<bar>shoelace shell\<bar> / 2"

text \<open>The loop of \<^verbatim>\<open>calculate_ring_area_in_utm\<close>: each vertex \<open>(lon, lat)\<close> is projected
  on its own with \<open>from_latlon lat lon\<close>, in order; the first exception ends the loop.\<close>

fun polygon_utm :: "from_latlon \<Rightarrow> ring \<Rightarrow> exn + (real \<times> real) list" where
  "polygon_utm proj [] = Inr []"
| "polygon_utm proj (vertex # rest) =
     (case proj (snd vertex) (fst vertex) of
        Inl e \<Rightarrow> Inl e
      | Inr en \<Rightarrow>
          (case polygon_utm proj rest of
             Inl e \<Rightarrow> Inl e
           | Inr ens \<Rightarrow> Inr (en # ens)))"

definition calculate_ring_area_in_utm :: "from_latlon \<Rightarrow> ring \<Rightarrow> exn + real" where
  "calculate_ring_area_in_utm proj ring =
     (case polygon_utm proj ring of
        Inl e \<Rightarrow> Inl e
      | Inr shell \<Rightarrow> Inr (Polygon_area shell))"

text \<open>The loop \<^verbatim>\<open>for hole in polygon.interiors: area -= ...\<close> with the running area.\<close>

fun subtract_holes :: "from_latlon \<Rightarrow> real \<Rightarrow> ring list \<Rightarrow> exn + real" where
  "subtract_holes proj area [] = Inr area"
| "subtract_holes proj area (hole # holes) =
     (case calculate_ring_area_in_utm proj hole of
        Inl e \<Rightarrow> Inl e
      | Inr a \<Rightarrow> subtract_holes proj (area - a) holes)"

definition calculate_polygon_area_in_utm :: "from_latlon \<Rightarrow> polygon \<Rightarrow> exn + real" where
  "calculate_polygon_area_in_utm proj p =
     (case calculate_ring_area_in_utm proj (exterior p) of
        Inl e \<Rightarrow> Inl e
      | Inr area \<Rightarrow> subtract_holes proj area (interiors p))"

text \<open>A stand-in for \<open>from_latlon\<close> used to instantiate the parameter at concrete inputs:
  it rejects latitudes and longitudes outside the range utm accepts and scales the
  others linearly.\<close>

definition flat_latlon :: from_latlon where
  "flat_latlon lat lon =
     (if - 80 \<le> lat \<and> lat \<le> 84 \<and> - 180 \<le> lon \<and> lon < 180
      then Inr (lon * 100000, lat * 100000)
      else Inl (External ''OutOfRangeError''))"

section \<open>Footprint text (utils.py, lines 63 to 78)\<close>

text \<open>An OSM node is a dictionary; \<^verbatim>\<open>node["lon"]\<close> raises KeyError when the key is
  missing. The list comprehension reads \<open>lon\<close> before \<open>lat\<close>, node by node.\<close>

type_synonym node = "string \<rightharpoonup> real"

fun node_coords :: "node list \<Rightarrow> exn + (real \<times> real) list" where
  "node_coords [] = Inr []"
| "node_coords (node # rest) =
     (case node ''lon'' of
        None \<Rightarrow> Inl (KeyError ''lon'')
      | Some lon \<Rightarrow>
          (case node ''lat'' of
             None \<Rightarrow> Inl (KeyError ''lat'')
           | Some lat \<Rightarrow>
               (case node_coords rest of
                  Inl e \<Rightarrow> Inl e
                | Inr coords \<Rightarrow> Inr ((lon, lat) # coords))))"

text \<open>\<^verbatim>\<open>sep.join(strings)\<close>.\<close>

fun str_join :: "string \<Rightarrow> string list \<Rightarrow> string" where
  "str_join sep [] = []"
| "str_join sep [s] = s"
| "str_join sep (s # t # ss) = s @ sep @ str_join sep (t # ss)"

text \<open>\<open>f\<close> is the text an f-string gives for a float; lines 77 and 78 build the
  text of the polygon from the closed coordinate list.\<close>

definition wkt_text :: "(real \<Rightarrow> string) \<Rightarrow> (real \<times> real) list \<Rightarrow> string" where
  "wkt_text f coords =
     ''POLYGON((''
       @ str_join '', '' (map (\<lambda>(lon, lat). f lon @ '' '' @ f lat) coords) @ ''))''"

text \<open>\<^verbatim>\<open>coords[0]\<close> on the empty list raises IndexError; there is no other check on the
  number of vertices.\<close>

definition convert_osm_to_wkt :: "(real \<Rightarrow> string) \<Rightarrow> node list \<Rightarrow> exn + string" where
  "convert_osm_to_wkt f geometry =
     (case node_coords geometry of
        Inl e \<Rightarrow> Inl e
      | Inr coords \<Rightarrow>
          if coords = [] then Inl IndexError
          else Inr (wkt_text f (if hd coords \<noteq> last coords then coords @ [hd coords] else coords)))"

section \<open>Processing buildings (process_osm_data.py, lines 30 to 88 and 198 to 204)\<close>

text \<open>A raw building is a dictionary; the three keys the code reads may be missing.\<close>

record building =
  b_id :: "int option"
  b_geometry :: "node list option"
  b_tags :: "(string \<rightharpoonup> string) option"

record processed =
  osm_id :: "int option"
  longitude :: real
  latitude :: real
  building_height :: "real option"
  levels :: "int option"
  building_type :: string
  building_material :: string
  roof_material :: string
  roof_shape :: string
  name :: string
  street :: string
  housenumber :: string
  postcode :: string
  city :: string
  footprint_wkt :: string
  footprint_area :: real

text \<open>The library calls of \<^verbatim>\<open>process_osm_building\<close>: float formatting, shapely's WKT
  reader and representative point, the utm projection, and Python's \<^verbatim>\<open>float\<close> and
  \<^verbatim>\<open>int\<close> on a string (\<open>None\<close> where they raise ValueError).\<close>

record libs =
  fmt :: "real \<Rightarrow> string"
  wkt_loads :: "string \<Rightarrow> exn + polygon"
  representative_point :: "polygon \<Rightarrow> exn + (real \<times> real)"
  utm_from_latlon :: from_latlon
  py_float :: "string \<Rightarrow> real option"
  py_int :: "string \<Rightarrow> int option"

text \<open>\<^verbatim>\<open>tags.get(key, "")\<close>.\<close>

definition tag_or_empty :: "(string \<rightharpoonup> string) \<Rightarrow> string \<Rightarrow> string" where
  "tag_or_empty tags key = (case tags key of None \<Rightarrow> [] | Some v \<Rightarrow> v)"

text \<open>The body of the \<^verbatim>\<open>try\<close> block. \<^verbatim>\<open>float(None)\<close> and \<^verbatim>\<open>int(None)\<close> raise TypeError,
  which the inner handlers turn into \<open>None\<close> like a ValueError.\<close>

definition process_body :: "libs \<Rightarrow> building \<Rightarrow> exn + processed" where
  "process_body L b =
     (case convert_osm_to_wkt (fmt L) (case b_geometry b of None \<Rightarrow> [] | Some g \<Rightarrow> g) of
        Inl e \<Rightarrow> Inl e
      | Inr wkt \<Rightarrow>
     (case wkt_loads L wkt of
        Inl e \<Rightarrow> Inl e
      | Inr footprint_polygon \<Rightarrow>
     (case representative_point L footprint_polygon of
        Inl e \<Rightarrow> Inl e
      | Inr (lon, lat) \<Rightarrow>
     (case calculate_polygon_area_in_utm (utm_from_latlon L) footprint_polygon of
        Inl e \<Rightarrow> Inl e
      | Inr area \<Rightarrow>
          let tags = (case b_tags b of None \<Rightarrow> Map.empty | Some t \<Rightarrow> t);
              height = (case tags ''height'' of None \<Rightarrow> None | Some s \<Rightarrow> py_float L s);
              lvls = (case tags ''building:levels'' of None \<Rightarrow> None | Some s \<Rightarrow> py_int L s)
          in Inr \<lparr> osm_id = b_id b,
                   longitude = lon,
                   latitude = lat,
                   building_height = height,
                   levels = lvls,
                   building_type = tag_or_empty tags ''building'',
                   building_material = tag_or_empty tags ''building:material'',
                   roof_material = tag_or_empty tags ''roof:material'',
                   roof_shape = tag_or_empty tags ''roof:shape'',
                   name = tag_or_empty tags ''name'',
                   street = tag_or_empty tags ''addr:street'',
                   housenumber = tag_or_empty tags ''addr:housenumber'',
                   postcode = tag_or_empty tags ''addr:postcode'',
                   city = tag_or_empty tags ''addr:city'',
                   footprint_wkt = wkt,
                   footprint_area = area \<rparr>))))"

text \<open>A line printed by the handler: \<^verbatim>\<open>Error processing building {id}: {e}\<close>.\<close>

datatype printed = Error_processing_building "int option" exn

text \<open>\<^verbatim>\<open>process_osm_building\<close>: the lines it prints and its return value.\<close>

definition process_osm_building :: "libs \<Rightarrow> building \<Rightarrow> printed list \<times> processed option" where
  "process_osm_building L b =
     (case process_body L b of
        Inl e \<Rightarrow> ([Error_processing_building (b_id b) e], None)
      | Inr r \<Rightarrow> ([], Some r))"

text \<open>The loop of the main block over the filtered buildings, with the lines printed so
  far and the list \<^verbatim>\<open>processed_buildings\<close> as state. A returned dictionary is never
  empty, so \<^verbatim>\<open>if processed_building\<close> is the test for \<open>None\<close>.\<close>

fun process_buildings ::
  "libs \<Rightarrow> building list \<Rightarrow> printed list \<times> processed list \<Rightarrow> printed list \<times> processed list"
where
  "process_buildings L [] state = state"
| "process_buildings L (b # bs) (out, processed_buildings) =
     (case process_osm_building L b of
        (lines, None) \<Rightarrow> process_buildings L bs (out @ lines, processed_buildings)
      | (lines, Some processed_building) \<Rightarrow>
          process_buildings L bs (out @ lines, processed_buildings @ [processed_building]))"

section \<open>Street View pitch and URL (utils.py, lines 81 to 155)\<close>

text \<open>A numpy float: a real number, or one of the special values numpy computes where
  Python itself would raise (\<open>0/0\<close>, \<open>x/0\<close>, \<open>arccos\<close> outside \<open>[-1, 1]\<close>).\<close>

datatype npfloat = Num real | NaN | PosInf | NegInf

text \<open>Division of two numpy floats. \<open>fdiv\<close> is the float division of a dividend by a
  divisor other than zero: the exact quotient, rounded. Division by zero gives a special
  value and a warning, no exception.\<close>

definition np_div :: "(real \<Rightarrow> real \<Rightarrow> real) \<Rightarrow> real \<Rightarrow> real \<Rightarrow> npfloat" where
  "np_div fdiv a b =
     (if b \<noteq> 0 then Num (fdiv a b)
      else if a = 0 then NaN
      else if 0 < a then PosInf else NegInf)"

fun np_arccos :: "npfloat \<Rightarrow> npfloat" where
  "np_arccos (Num x) = (if - 1 \<le> x \<and> x \<le> 1 then Num (arccos x) else NaN)"
| "np_arccos v = NaN"

fun np_degrees :: "npfloat \<Rightarrow> npfloat" where
  "np_degrees (Num x) = Num (x * 180 / pi)"
| "np_degrees v = v"

text \<open>Multiplication of a numpy float by the positive constant \<open>0.5\<close>.\<close>

fun np_half :: "npfloat \<Rightarrow> npfloat" where
  "np_half (Num x) = Num (x * 0.5)"
| "np_half v = v"

type_synonym vec3 = "real \<times> real \<times> real"

fun np_sub :: "vec3 \<Rightarrow> vec3 \<Rightarrow> vec3" where
  "np_sub (a1, a2, a3) (b1, b2, b3) = (a1 - b1, a2 - b2, a3 - b3)"

fun np_dot :: "vec3 \<Rightarrow> vec3 \<Rightarrow> real" where
  "np_dot (a1, a2, a3) (b1, b2, b3) = a1 * b1 + a2 * b2 + a3 * b3"

fun np_norm :: "vec3 \<Rightarrow> real" where
  "np_norm (a1, a2, a3) = sqrt (a1 * a1 + a2 * a2 + a3 * a3)"

text \<open>The JSON body of a metadata response, as far as the code reads it: the status and
  the location, a dictionary in which \<open>lng\<close> or \<open>lat\<close> may be missing.\<close>

record metadata =
  status :: "string option"
  location :: "(string \<rightharpoonup> real) option"

record response =
  status_code :: nat
  content :: "char list"
  json :: "exn + metadata"

text \<open>What the functions do to the outside world, in the order they do it.\<close>

datatype effect =
    Transform real real real
  | HttpGet string
  | MakeDirs string
  | WriteFile string "char list"
  | Print_error_downloading exn

text \<open>The outside world: float formatting in an f-string, the API key, the float
  division, pyproj's transformer from geographic to geocentric coordinates,
  \<^verbatim>\<open>requests.get\<close>, \<^verbatim>\<open>os.path.dirname\<close>, \<^verbatim>\<open>os.makedirs\<close> and the writing of a file
  (\<open>Some e\<close> when they raise).\<close>

record world =
  str_float :: "npfloat \<Rightarrow> string"
  GOOGLE_MAPS_KEY :: string
  float_div :: "real \<Rightarrow> real \<Rightarrow> real"
  transform :: "real \<Rightarrow> real \<Rightarrow> real \<Rightarrow> vec3"
  requests_get :: "string \<Rightarrow> exn + response"
  dirname :: "string \<Rightarrow> string"
  makedirs :: "string \<Rightarrow> exn option"
  write_file :: "string \<Rightarrow> char list \<Rightarrow> exn option"

definition get_streetview_metadata_url :: "world \<Rightarrow> real \<Rightarrow> real \<Rightarrow> string" where
  "get_streetview_metadata_url W lon lat =
     ''https://maps.googleapis.com/maps/api/streetview/metadata?location=''
       @ str_float W (Num lat) @ '','' @ str_float W (Num lon)
       @ ''&source=outdoor&key='' @ GOOGLE_MAPS_KEY W"

text \<open>\<^verbatim>\<open>location.get\<close> on a missing location is an AttributeError on \<open>None\<close>; on a
  location it gives \<open>None\<close> for a missing key, so either component of the returned pair
  may be \<open>None\<close>.\<close>

definition get_streetview_camera_position ::
  "world \<Rightarrow> real \<Rightarrow> real \<Rightarrow> effect list \<times> (exn + (real option \<times> real option) option)" where
  "get_streetview_camera_position W lon lat =
     (let url = get_streetview_metadata_url W lon lat in
      ([HttpGet url],
       case requests_get W url of
         Inl e \<Rightarrow> Inl e
       | Inr res \<Rightarrow>
           if status_code res = 200 then
             (case json res of
                Inl e \<Rightarrow> Inl e
              | Inr meta_data \<Rightarrow>
                  if status meta_data = Some ''OK'' then
                    (case location meta_data of
                       None \<Rightarrow> Inl AttributeError
                     | Some loc \<Rightarrow> Inr (Some (loc ''lng'', loc ''lat'')))
                  else Inr None)
           else Inr None))"

text \<open>Lines 141 to 153 of \<^verbatim>\<open>get_streetview_url\<close>: the value of the variable \<open>pitch\<close>
  when the return statement is reached. \<open>None\<close> and \<open>0\<close> are the falsy heights; a pair
  is truthy whatever its components, and the transformer raises on a coordinate that is
  \<open>None\<close>.\<close>

definition streetview_pitch ::
  "world \<Rightarrow> real \<Rightarrow> real \<Rightarrow> real option \<Rightarrow> bool \<Rightarrow> real \<Rightarrow> effect list \<times> (exn + npfloat)" where
  "streetview_pitch W lon lat height use_building_height pitch =
     (if use_building_height \<and> height \<noteq> None \<and> height \<noteq> Some 0 then
        let poly_center = transform W lon lat 0 in
        (case get_streetview_camera_position W lon lat of
           (effs, Inl e) \<Rightarrow> (Transform lon lat 0 # effs, Inl e)
         | (effs, Inr None) \<Rightarrow> (Transform lon lat 0 # effs, Inr (Num pitch))
         | (effs, Inr (Some (None, streetview_lat))) \<Rightarrow> (Transform lon lat 0 # effs, Inl TypeError)
         | (effs, Inr (Some (Some cam_lon, None))) \<Rightarrow> (Transform lon lat 0 # effs, Inl TypeError)
         | (effs, Inr (Some (Some cam_lon, Some cam_lat))) \<Rightarrow>
             let origin = transform W cam_lon cam_lat 0;
                 vec0 = np_sub poly_center origin;
                 vec1 = np_sub (transform W lon lat (the height)) origin;
                 cosine = np_div (float_div W) (np_dot vec0 vec1) (np_norm vec0 * np_norm vec1)
             in (Transform lon lat 0 # effs
                   @ [Transform cam_lon cam_lat 0, Transform lon lat (the height)],
                 Inr (np_half (np_degrees (np_arccos cosine)))))
      else ([], Inr (Num pitch)))"

definition streetview_url_text :: "world \<Rightarrow> real \<Rightarrow> real \<Rightarrow> npfloat \<Rightarrow> string" where
  "streetview_url_text W lon lat pitch =
     ''https://maps.googleapis.com/maps/api/streetview?size=350x350&location=''
       @ str_float W (Num lat) @ '','' @ str_float W (Num lon)
       @ ''&fov=70&pitch='' @ str_float W pitch
       @ ''&source=outdoor&key='' @ GOOGLE_MAPS_KEY W"

text \<open>The return annotation is \<^verbatim>\<open>Optional[str]\<close>, hence the option in the result.\<close>

definition get_streetview_url ::
  "world \<Rightarrow> real \<Rightarrow> real \<Rightarrow> real option \<Rightarrow> bool \<Rightarrow> real \<Rightarrow> effect list \<times> (exn + string option)" where
  "get_streetview_url W lon lat height use_building_height pitch =
     (case streetview_pitch W lon lat height use_building_height pitch of
        (effs, Inl e) \<Rightarrow> (effs, Inl e)
      | (effs, Inr p) \<Rightarrow> (effs, Inr (Some (streetview_url_text W lon lat p))))"

section \<open>Street View download (utils.py, lines 158 to 211)\<close>

text \<open>The return statements of \<^verbatim>\<open>download_streetview_image\<close>, one constructor each:
  line 190 (no URL), line 202 (blank image), line 207 (saved) and line 211 (handler).\<close>

datatype exit = No_url | Blank_image | Saved | Handled exn

fun returned :: "exit \<Rightarrow> bool" where
  "returned Saved = True"
| "returned x = False"

text \<open>\<^verbatim>\<open>response.raise_for_status()\<close> raises for a status code from 400 to 599. The call
  of \<^verbatim>\<open>get_streetview_url\<close> is outside the \<^verbatim>\<open>try\<close> block: its exception propagates.\<close>

definition download_exit ::
  "world \<Rightarrow> real \<Rightarrow> real \<Rightarrow> string \<Rightarrow> real option \<Rightarrow> bool \<Rightarrow> real \<Rightarrow> effect list \<times> (exn + exit)" where
  "download_exit W lon lat output_path height use_building_height pitch =
     (case get_streetview_url W lon lat height use_building_height pitch of
        (effs, Inl e) \<Rightarrow> (effs, Inl e)
      | (effs, Inr None) \<Rightarrow> (effs, Inr No_url)
      | (effs, Inr (Some url)) \<Rightarrow>
          if url = [] then (effs, Inr No_url)
          else
            let dir = dirname W output_path in
            (case makedirs W dir of
               Some e \<Rightarrow> (effs @ [MakeDirs dir, Print_error_downloading e], Inr (Handled e))
             | None \<Rightarrow>
            (case requests_get W url of
               Inl e \<Rightarrow>
                 (effs @ [MakeDirs dir, HttpGet url, Print_error_downloading e], Inr (Handled e))
             | Inr response \<Rightarrow>
                 if 400 \<le> status_code response \<and> status_code response < 600 then
                   (effs @ [MakeDirs dir, HttpGet url,
                            Print_error_downloading (HTTPError (status_code response))],
                    Inr (Handled (HTTPError (status_code response))))
                 else if length (content response) < 5000 then
                   (effs @ [MakeDirs dir, HttpGet url], Inr Blank_image)
                 else
                   (case write_file W output_path (content response) of
                      Some e \<Rightarrow>
                        (effs @ [MakeDirs dir, HttpGet url,
                                 WriteFile output_path (content response),
                                 Print_error_downloading e],
                         Inr (Handled e))
                    | None \<Rightarrow>
                        (effs @ [MakeDirs dir, HttpGet url,
                                 WriteFile output_path (content response)],
                         Inr Saved)))))"

definition download_streetview_image ::
  "world \<Rightarrow> real \<Rightarrow> real \<Rightarrow> string \<Rightarrow> real option \<Rightarrow> bool \<Rightarrow> real \<Rightarrow> effect list \<times> (exn + bool)" where
  "download_streetview_image W lon lat output_path height use_building_height pitch =
     (case download_exit W lon lat output_path height use_building_height pitch of
        (effs, Inl e) \<Rightarrow> (effs, Inl e)
      | (effs, Inr x) \<Rightarrow> (effs, Inr (returned x)))"

section \<open>Stand-ins for the library calls\<close>

text \<open>Concrete values for the parameters, used where a statement is evaluated at a
  concrete input: a formatter for the coordinates \<open>0\<close> and \<open>1\<close>, a WKT reader that knows
  one triangle and one ring of two vertices closed to three coordinate pairs (shapely
  reads both) and raises on every other text, and the projection \<open>flat_latlon\<close>.\<close>

definition demo_fmt :: "real \<Rightarrow> string" where
  "demo_fmt x = (if x = 0 then ''0.0'' else if x = 1 then ''1.0'' else ''2.0'')"

definition demo_loads :: "string \<Rightarrow> exn + polygon" where
  "demo_loads txt =
     (if txt = ''POLYGON((0.0 0.0, 1.0 0.0, 0.0 1.0, 0.0 0.0))''
      then Inr \<lparr> exterior = [(0, 0), (1, 0), (0, 1), (0, 0)], interiors = [] \<rparr>
      else if txt = ''POLYGON((0.0 0.0, 1.0 0.0, 0.0 0.0))''
      then Inr \<lparr> exterior = [(0, 0), (1, 0), (0, 0)], interiors = [] \<rparr>
      else Inl (External ''WKTReadingError''))"

definition demo_libs :: libs where
  "demo_libs =
     \<lparr> fmt = demo_fmt,
       wkt_loads = demo_loads,
       representative_point = (\<lambda>p. Inr (1 / 4, 1 / 4)),
       utm_from_latlon = flat_latlon,
       py_float = (\<lambda>s. if s = ''10'' then Some 10 else None),
       py_int = (\<lambda>s. if s = ''3'' then Some 3 else None) \<rparr>"

definition demo_node :: "real \<Rightarrow> real \<Rightarrow> node" where
  "demo_node lon lat = [''lon'' \<mapsto> lon, ''lat'' \<mapsto> lat]"

text \<open>Modelled from the spec: pyproj's transformer from EPSG:4326 to EPSG:4978 is library
  code outside the repository; the spec gives it as the standard ellipsoidal
  geographic-to-geocentric transform, here on the WGS84 ellipsoid (semi-major axis \<open>a\<close>
  in metres, flattening \<open>f\<close>), with longitude and latitude in degrees.\<close>

definition wgs84_a :: real where
  "wgs84_a = 6378137"

definition wgs84_f :: real where
  "wgs84_f = 1 / 298.257223563"

definition geocentric :: "real \<Rightarrow> real \<Rightarrow> real \<Rightarrow> vec3" where
  "geocentric lon lat h =
     (let lam = lon * pi / 180;
          phi = lat * pi / 180;
          e2 = wgs84_f * (2 - wgs84_f);
          n = wgs84_a / sqrt (1 - e2 * (sin phi * sin phi))
      in ((n + h) * cos phi * cos lam,
          (n + h) * cos phi * sin lam,
          (n * (1 - e2) + h) * sin phi))"

text \<open>Stand-ins for the outside world of the Street View functions: a formatter, the
  exact quotient for the float division, the geocentric transform, and a service that
  gives every request the same reply.\<close>

definition demo_str :: "npfloat \<Rightarrow> string" where
  "demo_str v = (case v of Num x \<Rightarrow> demo_fmt x | NaN \<Rightarrow> ''nan'' | PosInf \<Rightarrow> ''inf'' | NegInf \<Rightarrow> ''-inf'')"

definition demo_world :: "(exn + response) \<Rightarrow> world" where
  "demo_world reply =
     \<lparr> str_float = demo_str,
       GOOGLE_MAPS_KEY = ''KEY'',
       float_div = (\<lambda>a b. a / b),
       transform = geocentric,
       requests_get = (\<lambda>url. reply),
       dirname = (\<lambda>path. ''data/images/fixed_pitch''),
       makedirs = (\<lambda>dir. None),
       write_file = (\<lambda>path bytes. None) \<rparr>"

definition camera_reply :: "real \<Rightarrow> real \<Rightarrow> exn + response" where
  "camera_reply lng lat =
     Inr \<lparr> status_code = 200, content = [],
           json = Inr \<lparr> status = Some ''OK'',
                        location = Some [''lng'' \<mapsto> lng, ''lat'' \<mapsto> lat] \<rparr> \<rparr>"

definition no_imagery_reply :: "exn + response" where
  "no_imagery_reply =
     Inr \<lparr> status_code = 200, content = [],
           json = Inr \<lparr> status = Some ''ZERO_RESULTS'', location = None \<rparr> \<rparr>"

text \<open>A request that fails before any response, and a response that carries an image of
  \<open>n\<close> bytes.\<close>

definition connection_error :: "exn + response" where
  "connection_error = Inl (External ''ConnectionError'')"

definition image_reply :: "nat \<Rightarrow> exn + response" where
  "image_reply n =
     Inr \<lparr> status_code = 200, content = replicate n (CHR ''x''),
           json = Inl (External ''JSONDecodeError'') \<rparr>"

section \<open>Properties of the polygon area\<close>

lemma polygon_utm_Inr:
  "polygon_utm proj r = Inr ps \<longleftrightarrow> map (\<lambda>v. proj (snd v) (fst v)) r = map Inr ps"
proof (induction r arbitrary: ps)
  case Nil
  show ?case by auto
next
  case (Cons v r)
  show ?case
  proof (cases "proj (snd v) (fst v)")
    case (Inl e)
    then show ?thesis by (cases ps) auto
  next
    case en: (Inr en)
    show ?thesis
    proof (cases "polygon_utm proj r")
      case (Inl e)
      with en Cons.IH show ?thesis by (cases ps) auto
    next
      case (Inr ens)
      with en Cons.IH show ?thesis by (cases ps) auto
    qed
  qed
qed

lemma subtract_holes_Inr:
  "subtract_holes proj area holes = Inr a \<longleftrightarrow>
     (\<exists>hs. map (calculate_ring_area_in_utm proj) holes = map Inr hs \<and> a = area - sum_list hs)"
proof (induction holes arbitrary: area)
  case Nil
  show ?case by auto
next
  case (Cons h holes)
  show ?case
  proof (cases "calculate_ring_area_in_utm proj h")
    case (Inl e)
    then show ?thesis by (auto simp: map_eq_Cons_conv)
  next
    case (Inr x)
    have "(\<exists>hs. map (calculate_ring_area_in_utm proj) (h # holes) = map Inr hs
             \<and> a = area - sum_list hs)
        \<longleftrightarrow> (\<exists>hs'. map (calculate_ring_area_in_utm proj) holes = map Inr hs'
             \<and> a = area - x - sum_list hs')"
    proof
      assume "\<exists>hs. map (calculate_ring_area_in_utm proj) (h # holes) = map Inr hs
             \<and> a = area - sum_list hs"
      then obtain hs where hs: "map (calculate_ring_area_in_utm proj) (h # holes) = map Inr hs"
        "a = area - sum_list hs" by blast
      from hs(1) Inr obtain hs' where "hs = x # hs'"
        "map (calculate_ring_area_in_utm proj) holes = map Inr hs'"
        by (cases hs) auto
      with hs(2) show "\<exists>hs'. map (calculate_ring_area_in_utm proj) holes = map Inr hs'
             \<and> a = area - x - sum_list hs'"
        by (intro exI[of _ hs']) simp
    next
      assume "\<exists>hs'. map (calculate_ring_area_in_utm proj) holes = map Inr hs'
             \<and> a = area - x - sum_list hs'"
      then obtain hs' where "map (calculate_ring_area_in_utm proj) holes = map Inr hs'"
        "a = area - x - sum_list hs'" by blast
      with Inr show "\<exists>hs. map (calculate_ring_area_in_utm proj) (h # holes) = map Inr hs
             \<and> a = area - sum_list hs"
        by (intro exI[of _ "x # hs'"]) simp
    qed
    with Inr Cons.IH[of "area - x"] show ?thesis by simp
  qed
qed

text \<open>
  C1. The area of a polygon is the area of its exterior ring minus the sum of the areas
  of its hole rings: the function returns a value exactly when every ring has an area,
  and the value is that difference. The area of a ring is computed from that ring alone:
  every vertex \<open>(lon, lat)\<close> is projected by \<open>from_latlon lat lon\<close> and the planar
  area formula is applied to the projected vertices.
\<close>

theorem polygon_area_is_exterior_minus_holes:
  "(calculate_polygon_area_in_utm proj p = Inr a \<longleftrightarrow>
      (\<exists>ext hs. calculate_ring_area_in_utm proj (exterior p) = Inr ext
         \<and> map (calculate_ring_area_in_utm proj) (interiors p) = map Inr hs
         \<and> a = ext - sum_list hs))
   \<and> (calculate_ring_area_in_utm proj r = Inr x \<longleftrightarrow>
      (\<exists>shell. map (\<lambda>v. proj (snd v) (fst v)) r = map Inr shell
         \<and> x = \<bar>shoelace shell\<bar> / 2))"
proof
  show "calculate_polygon_area_in_utm proj p = Inr a \<longleftrightarrow>
      (\<exists>ext hs. calculate_ring_area_in_utm proj (exterior p) = Inr ext
         \<and> map (calculate_ring_area_in_utm proj) (interiors p) = map Inr hs
         \<and> a = ext - sum_list hs)"
    by (cases "calculate_ring_area_in_utm proj (exterior p)")
       (simp_all add: calculate_polygon_area_in_utm_def subtract_holes_Inr)
  show "calculate_ring_area_in_utm proj r = Inr x \<longleftrightarrow>
      (\<exists>shell. map (\<lambda>v. proj (snd v) (fst v)) r = map Inr shell
         \<and> x = \<bar>shoelace shell\<bar> / 2)"
    by (cases "polygon_utm proj r")
       (auto simp: calculate_ring_area_in_utm_def Polygon_area_def
          polygon_utm_Inr[symmetric])
qed

theorem polygon_area_is_exterior_minus_holes_witness:
  "calculate_polygon_area_in_utm flat_latlon
     \<lparr> exterior = [(0, 0), (1 / 500, 0), (1 / 500, 1 / 500), (0, 1 / 500), (0, 0)],
       interiors = [[(0, 0), (1 / 1000, 0), (1 / 1000, 1 / 1000), (0, 1 / 1000), (0, 0)]] \<rparr>
     = Inr 30000"
proof -
  let ?ext = "[(0, 0), (1 / 500, 0), (1 / 500, 1 / 500), (0, 1 / 500), (0, 0)] :: ring"
  let ?hole = "[(0, 0), (1 / 1000, 0), (1 / 1000, 1 / 1000), (0, 1 / 1000), (0, 0)] :: ring"
  have e: "calculate_ring_area_in_utm flat_latlon ?ext = Inr 40000"
    by (simp add: calculate_ring_area_in_utm_def flat_latlon_def Polygon_area_def)
  have h: "calculate_ring_area_in_utm flat_latlon ?hole = Inr 10000"
    by (simp add: calculate_ring_area_in_utm_def flat_latlon_def Polygon_area_def)
  have "\<exists>ext hs. calculate_ring_area_in_utm flat_latlon
          (exterior \<lparr> exterior = ?ext, interiors = [?hole] \<rparr>) = Inr ext
      \<and> map (calculate_ring_area_in_utm flat_latlon)
          (interiors \<lparr> exterior = ?ext, interiors = [?hole] \<rparr>) = map Inr hs
      \<and> (30000::real) = ext - sum_list hs"
    by (rule exI[of _ 40000], rule exI[of _ "[10000]"]) (simp add: e h)
  then show ?thesis
    by (simp only: polygon_area_is_exterior_minus_holes[THEN conjunct1])
qed

section \<open>Rotation and reversal of a ring\<close>

lemma shoelace_snoc:
  "xs \<noteq> [] \<Longrightarrow> shoelace (xs @ [a]) = shoelace xs + (fst (last xs) * snd a - fst a * snd (last xs))"
proof (induction xs rule: shoelace.induct)
  case (1 p q ps)
  then show ?case by simp
qed simp_all

lemma shoelace_rev: "shoelace (rev xs) = - shoelace xs"
proof (induction xs rule: shoelace.induct)
  case (1 p q ps)
  have "shoelace (rev (p # q # ps)) = shoelace (rev (q # ps) @ [p])" by simp
  also have "\<dots> = shoelace (rev (q # ps)) + (fst q * snd p - fst p * snd q)"
    by (subst shoelace_snoc) (simp_all add: last_rev)
  finally show ?case using 1 by simp
qed simp_all

lemma shoelace_closed_rotate1:
  "vs \<noteq> [] \<Longrightarrow> shoelace (rotate1 vs @ [hd (rotate1 vs)]) = shoelace (vs @ [hd vs])"
proof (cases vs)
  case Nil
  then show "vs \<noteq> [] \<Longrightarrow> ?thesis" by simp
next
  case (Cons v ws)
  show ?thesis
  proof (cases ws)
    case Nil
    with Cons show ?thesis by simp
  next
    case (Cons w ws')
    have l: "shoelace ((w # ws') @ [v]) = shoelace (w # ws') + (fst (last (w # ws')) * snd v - fst v * snd (last (w # ws')))"
      by (rule shoelace_snoc) simp
    have "shoelace (((w # ws') @ [v]) @ [w]) = shoelace ((w # ws') @ [v]) + (fst v * snd w - fst w * snd v)"
      by (subst shoelace_snoc) simp_all
    with l show ?thesis using \<open>vs = v # ws\<close> Cons by simp
  qed
qed

lemma shoelace_closed_rotate:
  "vs \<noteq> [] \<Longrightarrow> shoelace (rotate n vs @ [hd (rotate n vs)]) = shoelace (vs @ [hd vs])"
proof (induction n)
  case 0
  show ?case by simp
next
  case (Suc n)
  have "rotate n vs \<noteq> []" using Suc.prems by simp
  from shoelace_closed_rotate1[OF this] Suc show ?case by simp
qed

lemma polygon_utm_total:
  "polygon_utm proj r = Inr ps \<Longrightarrow> set r' \<subseteq> set r \<Longrightarrow>
   polygon_utm proj r' = Inr (map (\<lambda>v. projr (proj (snd v) (fst v))) r')"
proof -
  assume a: "polygon_utm proj r = Inr ps" and s: "set r' \<subseteq> set r"
  have ok: "\<exists>en. proj (snd v) (fst v) = Inr en" if "v \<in> set r" for v
  proof -
    from a have m: "map (\<lambda>v. proj (snd v) (fst v)) r = map Inr ps" by (simp add: polygon_utm_Inr)
    from that obtain i where i: "i < length r" "r ! i = v" by (auto simp: in_set_conv_nth)
    from m have "length ps = length r" by (metis length_map)
    with i m have "proj (snd v) (fst v) = Inr (ps ! i)"
      by (metis nth_map)
    then show ?thesis by blast
  qed
  have "map (\<lambda>v. proj (snd v) (fst v)) r' = map Inr (map (\<lambda>v. projr (proj (snd v) (fst v))) r')"
  proof (simp, intro ballI)
    fix v assume "v \<in> set r'"
    with s ok obtain en where "proj (snd v) (fst v) = Inr en" by blast
    then show "proj (snd v) (fst v) = Inr (projr (proj (snd v) (fst v)))" by simp
  qed
  then show ?thesis by (simp only: polygon_utm_Inr)
qed

lemma ring_area_shoelace:
  "calculate_ring_area_in_utm proj r = Inr a \<Longrightarrow> set r' \<subseteq> set r \<Longrightarrow>
   calculate_ring_area_in_utm proj r'
     = Inr (\<bar>shoelace (map (\<lambda>v. projr (proj (snd v) (fst v))) r')\<bar> / 2)"
  by (cases "polygon_utm proj r")
     (simp_all add: calculate_ring_area_in_utm_def Polygon_area_def polygon_utm_total)

text \<open>
  C7. For a closed ring \<open>vs @ [hd vs]\<close> whose area is computed, the area is the same
  from every starting vertex (the ring of \<open>rotate n vs\<close>, closed again) and in the
  reverse direction of traversal: the absolute value removes the sign of the winding order.
\<close>

theorem ring_area_rotation_reversal_invariant:
  assumes "vs \<noteq> []"
    and "calculate_ring_area_in_utm proj (vs @ [hd vs]) = Inr a"
  shows "calculate_ring_area_in_utm proj (rotate n vs @ [hd (rotate n vs)]) = Inr a
       \<and> calculate_ring_area_in_utm proj (rev (vs @ [hd vs])) = Inr a"
proof -
  let ?g = "\<lambda>v. projr (proj (snd v) (fst v))"
  have a: "a = \<bar>shoelace (map ?g (vs @ [hd vs]))\<bar> / 2"
    using ring_area_shoelace[OF assms(2) subset_refl] assms(2) by simp
  have nz: "map ?g vs \<noteq> []" "rotate n vs \<noteq> []" using assms(1) by simp_all
  have "set (rotate n vs @ [hd (rotate n vs)]) \<subseteq> set (vs @ [hd vs])"
    using nz(2) hd_in_set[OF nz(2)] by auto
  from ring_area_shoelace[OF assms(2) this]
  have "calculate_ring_area_in_utm proj (rotate n vs @ [hd (rotate n vs)])
      = Inr (\<bar>shoelace (rotate n (map ?g vs) @ [hd (rotate n (map ?g vs))])\<bar> / 2)"
    using nz by (simp add: rotate_map hd_map)
  also have "\<dots> = Inr (\<bar>shoelace (map ?g vs @ [hd (map ?g vs)])\<bar> / 2)"
    by (simp only: shoelace_closed_rotate[OF nz(1)])
  also have "\<dots> = Inr a" using a assms(1) by (simp add: hd_map)
  finally have rot: "calculate_ring_area_in_utm proj (rotate n vs @ [hd (rotate n vs)]) = Inr a" .
  have "set (rev (vs @ [hd vs])) \<subseteq> set (vs @ [hd vs])" by simp
  from ring_area_shoelace[OF assms(2) this]
  have "calculate_ring_area_in_utm proj (rev (vs @ [hd vs]))
      = Inr (\<bar>shoelace (rev (map ?g (vs @ [hd vs])))\<bar> / 2)"
    by (simp only: rev_map)
  also have "\<dots> = Inr a" unfolding shoelace_rev a by simp
  finally show ?thesis using rot by simp
qed

theorem ring_area_rotation_reversal_invariant_witness:
  "calculate_ring_area_in_utm flat_latlon [(0, 0), (1 / 1000, 0), (0, 1 / 1000), (0, 0)] = Inr 5000
   \<and> calculate_ring_area_in_utm flat_latlon [(1 / 1000, 0), (0, 1 / 1000), (0, 0), (1 / 1000, 0)] = Inr 5000
   \<and> calculate_ring_area_in_utm flat_latlon [(0, 0), (0, 1 / 1000), (1 / 1000, 0), (0, 0)] = Inr 5000"
proof -
  have a: "calculate_ring_area_in_utm flat_latlon ([(0, 0), (1 / 1000, 0), (0, 1 / 1000)] @ [hd [(0, 0), (1 / 1000, 0), (0, 1 / 1000)]]) = Inr 5000"
    by (simp add: calculate_ring_area_in_utm_def flat_latlon_def Polygon_area_def)
  from ring_area_rotation_reversal_invariant[OF _ a, of 1] a show ?thesis by simp
qed


section \<open>Closing a ring, short rings and the batch\<close>

lemma node_coords_append:
  "node_coords (g @ h) =
     (case node_coords g of
        Inl e \<Rightarrow> Inl e
      | Inr cs \<Rightarrow> (case node_coords h of Inl e \<Rightarrow> Inl e | Inr ds \<Rightarrow> Inr (cs @ ds)))"
  by (induction g) (auto split: option.splits sum.splits)

lemma node_coords_length: "node_coords g = Inr cs \<Longrightarrow> length cs = length g"
  by (induction g arbitrary: cs) (auto split: option.splits sum.splits)

lemma node_coords_nth:
  "node_coords g = Inr cs \<Longrightarrow> i < length g \<Longrightarrow>
     (g ! i) ''lon'' = Some (fst (cs ! i)) \<and> (g ! i) ''lat'' = Some (snd (cs ! i))"
proof (induction g arbitrary: cs i)
  case Nil
  then show ?case by simp
next
  case (Cons n g)
  then show ?case
    by (cases i) (auto split: option.splits sum.splits)
qed

lemma node_coords_single:
  "n ''lon'' = Some x \<Longrightarrow> n ''lat'' = Some y \<Longrightarrow> node_coords [n] = Inr [(x, y)]"
  by simp

lemma convert_closed_ring:
  assumes "g \<noteq> []"
    and "(hd g ''lon'', hd g ''lat'') \<noteq> (last g ''lon'', last g ''lat'')"
  shows "convert_osm_to_wkt f (g @ [hd g]) = convert_osm_to_wkt f g"
proof (cases "node_coords g")
  case (Inl e)
  then show ?thesis by (simp add: convert_osm_to_wkt_def node_coords_append)
next
  case (Inr cs)
  have len: "length cs = length g" by (rule node_coords_length[OF Inr])
  with assms(1) have cs: "cs \<noteq> []" by auto
  have h: "hd g ''lon'' = Some (fst (hd cs))" "hd g ''lat'' = Some (snd (hd cs))"
    using node_coords_nth[OF Inr, of 0] assms(1) cs by (simp_all add: hd_conv_nth)
  have l: "last g ''lon'' = Some (fst (last cs))" "last g ''lat'' = Some (snd (last cs))"
    using node_coords_nth[OF Inr, of "length g - 1"] assms(1) cs len
    by (simp_all add: last_conv_nth)
  from assms(2) h l have ne: "hd cs \<noteq> last cs" by (auto simp: prod_eq_iff)
  have "node_coords [hd g] = Inr [hd cs]"
    using node_coords_single[OF h] by simp
  with Inr have app: "node_coords (g @ [hd g]) = Inr (cs @ [hd cs])"
    by (simp add: node_coords_append)
  show ?thesis using cs ne
    by (simp add: convert_osm_to_wkt_def app Inr)
qed

text \<open>
  C6. Closing is idempotent: for a ring whose first and last vertices differ, the ring
  as given and the ring given already closed (its first vertex appended) yield the same
  footprint text, hence the same result of \<^verbatim>\<open>process_osm_building\<close> and the same area.
\<close>

theorem closing_is_idempotent:
  assumes "g \<noteq> []"
    and "(hd g ''lon'', hd g ''lat'') \<noteq> (last g ''lon'', last g ''lat'')"
    and "b_geometry b = Some g"
  shows "convert_osm_to_wkt f (g @ [hd g]) = convert_osm_to_wkt f g
       \<and> process_osm_building L (b\<lparr>b_geometry := Some (g @ [hd g])\<rparr>) = process_osm_building L b"
proof -
  have c: "convert_osm_to_wkt f (g @ [hd g]) = convert_osm_to_wkt f g" for f
    by (rule convert_closed_ring[OF assms(1,2)])
  have "process_body L (b\<lparr>b_geometry := Some (g @ [hd g])\<rparr>) = process_body L b"
    using assms(3) by (simp add: process_body_def c cong: sum.case_cong prod.case_cong)
  then show ?thesis using c by (simp add: process_osm_building_def cong: sum.case_cong)
qed

theorem closing_is_idempotent_witness:
  "convert_osm_to_wkt demo_fmt [demo_node 0 0, demo_node 1 0, demo_node 0 1, demo_node 0 0]
     = Inr ''POLYGON((0.0 0.0, 1.0 0.0, 0.0 1.0, 0.0 0.0))''
   \<and> convert_osm_to_wkt demo_fmt [demo_node 0 0, demo_node 1 0, demo_node 0 1]
     = Inr ''POLYGON((0.0 0.0, 1.0 0.0, 0.0 1.0, 0.0 0.0))''
   \<and> process_osm_building demo_libs
        \<lparr> b_id = Some 7,
          b_geometry = Some [demo_node 0 0, demo_node 1 0, demo_node 0 1, demo_node 0 0],
          b_tags = None \<rparr>
     = process_osm_building demo_libs
        \<lparr> b_id = Some 7,
          b_geometry = Some [demo_node 0 0, demo_node 1 0, demo_node 0 1],
          b_tags = None \<rparr>
   \<and> map_option footprint_area (snd (process_osm_building demo_libs
        \<lparr> b_id = Some 7,
          b_geometry = Some [demo_node 0 0, demo_node 1 0, demo_node 0 1],
          b_tags = None \<rparr>)) = Some 5000000000"
proof -
  let ?g = "[demo_node 0 0, demo_node 1 0, demo_node 0 1]"
  let ?b = "\<lparr> b_id = Some 7, b_geometry = Some ?g, b_tags = None \<rparr>"
  have open_text: "convert_osm_to_wkt demo_fmt ?g
      = Inr ''POLYGON((0.0 0.0, 1.0 0.0, 0.0 1.0, 0.0 0.0))''"
    by (simp add: convert_osm_to_wkt_def wkt_text_def demo_node_def demo_fmt_def)
  have ne: "(hd ?g ''lon'', hd ?g ''lat'') \<noteq> (last ?g ''lon'', last ?g ''lat'')"
    by (simp add: demo_node_def)
  have area: "map_option footprint_area (snd (process_osm_building demo_libs ?b)) = Some 5000000000"
    by (simp add: process_osm_building_def process_body_def open_text demo_libs_def
        demo_loads_def calculate_polygon_area_in_utm_def calculate_ring_area_in_utm_def
        flat_latlon_def Polygon_area_def Let_def)
  from closing_is_idempotent[of ?g ?b demo_fmt demo_libs, OF _ ne] open_text area
  show ?thesis by simp
qed

lemma convert_nonempty:
  "node_coords g = Inr cs \<Longrightarrow> g \<noteq> [] \<Longrightarrow>
   convert_osm_to_wkt f g = Inr (wkt_text f (if hd cs \<noteq> last cs then cs @ [hd cs] else cs))"
  using node_coords_length[of g cs]
  by (auto simp: convert_osm_to_wkt_def)

lemma process_body_reader_raises:
  "b_geometry b = Some g \<Longrightarrow> convert_osm_to_wkt (fmt L) g = Inr txt \<Longrightarrow>
   wkt_loads L txt = Inl e \<Longrightarrow> process_body L b = Inl e"
  by (simp add: process_body_def)

lemma process_body_empty:
  "b_geometry b = None \<or> b_geometry b = Some [] \<Longrightarrow> process_body L b = Inl IndexError"
  by (auto simp: process_body_def convert_osm_to_wkt_def)

lemma shoelace_short_closed:
  "ps \<noteq> [] \<Longrightarrow> length ps \<le> 3 \<Longrightarrow> hd ps = last ps \<Longrightarrow> shoelace ps = 0"
proof (cases ps)
  case Nil
  then show "ps \<noteq> [] \<Longrightarrow> ?thesis" by simp
next
  case (Cons p qs)
  assume len: "length ps \<le> 3" and closed: "hd ps = last ps"
  show ?thesis
  proof (cases qs)
    case Nil
    with Cons show ?thesis by simp
  next
    case q: (Cons q rs)
    show ?thesis
    proof (cases rs)
      case Nil
      with Cons q closed show ?thesis by simp
    next
      case r: (Cons r ts)
      with Cons q len have "ts = []" by simp
      with Cons q r closed show ?thesis by simp
    qed
  qed
qed

lemma short_ring_area_zero:
  assumes "r \<noteq> []" "length r \<le> 3" "hd r = last r"
    and "polygon_utm proj r = Inr shell"
  shows "calculate_polygon_area_in_utm proj \<lparr> exterior = r, interiors = [] \<rparr> = Inr 0"
proof -
  let ?g = "\<lambda>v. projr (proj (snd v) (fst v))"
  have "polygon_utm proj r = Inr (map ?g r)"
    by (rule polygon_utm_total[OF assms(4) subset_refl])
  with assms(4) have shell: "shell = map ?g r" by simp
  have "shoelace shell = 0"
    using assms(1-3) unfolding shell
    by (intro shoelace_short_closed) (simp_all add: hd_map last_map)
  then show ?thesis
    by (simp add: calculate_polygon_area_in_utm_def calculate_ring_area_in_utm_def
        assms(4) Polygon_area_def)
qed

lemma closed_ring_shape:
  assumes "cs \<noteq> []" "length cs < 3"
  shows "(if hd cs \<noteq> last cs then cs @ [hd cs] else cs) \<noteq> []"
    and "length (if hd cs \<noteq> last cs then cs @ [hd cs] else cs) \<le> 3"
    and "hd (if hd cs \<noteq> last cs then cs @ [hd cs] else cs)
           = last (if hd cs \<noteq> last cs then cs @ [hd cs] else cs)"
  using assms by auto

text \<open>
  C2, as the code has it. The empty ring (or a building without geometry) stops
  \<^verbatim>\<open>convert_osm_to_wkt\<close> with an IndexError at \<^verbatim>\<open>coords[0]\<close>; the handler of
  \<^verbatim>\<open>process_osm_building\<close> prints it with the building's id and returns \<open>None\<close>. For
  a ring of one or two vertices the code checks nothing and signals nothing of its own:
  the text it returns has at most three coordinate pairs. If the WKT reader raises on
  that text, the exception is printed with the building's id and the building is
  dropped. If the reader returns the polygon the text describes and the representative
  point and the projection succeed, the building is kept, nothing is printed, and its
  footprint area is zero.
\<close>

theorem short_ring_outcome:
  "(b_geometry b = None \<or> b_geometry b = Some [] \<longrightarrow>
      convert_osm_to_wkt f [] = Inl IndexError
      \<and> process_osm_building L b = ([Error_processing_building (b_id b) IndexError], None))
   \<and> (g \<noteq> [] \<and> length g < 3 \<and> node_coords g = Inr cs \<longrightarrow>
      length (if hd cs \<noteq> last cs then cs @ [hd cs] else cs) \<le> 3
      \<and> convert_osm_to_wkt f g
          = Inr (wkt_text f (if hd cs \<noteq> last cs then cs @ [hd cs] else cs)))
   \<and> (b_geometry b = Some g \<and> convert_osm_to_wkt (fmt L) g = Inr txt
        \<and> wkt_loads L txt = Inl e \<longrightarrow>
      process_osm_building L b = ([Error_processing_building (b_id b) e], None))
   \<and> (b_geometry b = Some g \<and> g \<noteq> [] \<and> length g < 3 \<and> node_coords g = Inr cs
        \<and> wkt_loads L (wkt_text (fmt L) (if hd cs \<noteq> last cs then cs @ [hd cs] else cs))
            = Inr \<lparr> exterior = (if hd cs \<noteq> last cs then cs @ [hd cs] else cs),
                    interiors = [] \<rparr>
        \<and> representative_point L
            \<lparr> exterior = (if hd cs \<noteq> last cs then cs @ [hd cs] else cs), interiors = [] \<rparr>
            = Inr pt
        \<and> polygon_utm (utm_from_latlon L) (if hd cs \<noteq> last cs then cs @ [hd cs] else cs)
            = Inr shell \<longrightarrow>
      (\<exists>r. process_osm_building L b = ([], Some r)
          \<and> footprint_area r = 0
          \<and> footprint_wkt r
              = wkt_text (fmt L) (if hd cs \<noteq> last cs then cs @ [hd cs] else cs)))"
proof (intro conjI impI)
  show "convert_osm_to_wkt f [] = Inl IndexError"
    by (simp add: convert_osm_to_wkt_def)
next
  assume "b_geometry b = None \<or> b_geometry b = Some []"
  then show "process_osm_building L b = ([Error_processing_building (b_id b) IndexError], None)"
    by (simp add: process_osm_building_def process_body_empty)
next
  assume a: "g \<noteq> [] \<and> length g < 3 \<and> node_coords g = Inr cs"
  then have "length cs = length g" by (simp add: node_coords_length)
  with a show "length (if hd cs \<noteq> last cs then cs @ [hd cs] else cs) \<le> 3" by simp
next
  assume a: "g \<noteq> [] \<and> length g < 3 \<and> node_coords g = Inr cs"
  then show "convert_osm_to_wkt f g
      = Inr (wkt_text f (if hd cs \<noteq> last cs then cs @ [hd cs] else cs))"
    by (simp add: convert_nonempty)
next
  assume "b_geometry b = Some g \<and> convert_osm_to_wkt (fmt L) g = Inr txt
        \<and> wkt_loads L txt = Inl e"
  then have "process_body L b = Inl e" by (simp add: process_body_reader_raises)
  then show "process_osm_building L b = ([Error_processing_building (b_id b) e], None)"
    by (simp add: process_osm_building_def)
next
  let ?closed = "if hd cs \<noteq> last cs then cs @ [hd cs] else cs"
  let ?poly = "\<lparr> exterior = ?closed, interiors = [] \<rparr>"
  assume a: "b_geometry b = Some g \<and> g \<noteq> [] \<and> length g < 3 \<and> node_coords g = Inr cs
        \<and> wkt_loads L (wkt_text (fmt L) ?closed) = Inr ?poly
        \<and> representative_point L ?poly = Inr pt
        \<and> polygon_utm (utm_from_latlon L) ?closed = Inr shell"
  then have len: "length cs = length g" by (simp add: node_coords_length)
  with a have cs: "cs \<noteq> []" "length cs < 3" by auto
  have conv: "convert_osm_to_wkt (fmt L) g = Inr (wkt_text (fmt L) ?closed)"
    using a by (simp add: convert_nonempty)
  have area: "calculate_polygon_area_in_utm (utm_from_latlon L) ?poly = Inr 0"
    using a by (intro short_ring_area_zero[OF closed_ring_shape[OF cs]]) simp
  obtain x y where pt: "pt = (x, y)" by (cases pt)
  have "\<exists>r. process_body L b = Inr r \<and> footprint_area r = 0
      \<and> footprint_wkt r = wkt_text (fmt L) ?closed"
    using a pt by (simp add: process_body_def conv area Let_def)
  then show "\<exists>r. process_osm_building L b = ([], Some r) \<and> footprint_area r = 0
      \<and> footprint_wkt r = wkt_text (fmt L) ?closed"
    by (auto simp: process_osm_building_def)
qed

theorem short_ring_counterexample:
  "convert_osm_to_wkt demo_fmt [] = Inl IndexError
   \<and> fst (process_osm_building demo_libs
        \<lparr> b_id = Some 4, b_geometry = Some [demo_node 0 0, demo_node 1 0], b_tags = None \<rparr>)
       = []
   \<and> map_option footprint_area (snd (process_osm_building demo_libs
        \<lparr> b_id = Some 4, b_geometry = Some [demo_node 0 0, demo_node 1 0], b_tags = None \<rparr>))
       = Some 0"
  by (simp add: convert_osm_to_wkt_def wkt_text_def demo_node_def demo_fmt_def
      process_osm_building_def process_body_def demo_libs_def demo_loads_def
      calculate_polygon_area_in_utm_def calculate_ring_area_in_utm_def flat_latlon_def
      Polygon_area_def Let_def)


theorem short_ring_outcome_witness:
  "process_osm_building demo_libs \<lparr> b_id = Some 3, b_geometry = Some [], b_tags = None \<rparr>
     = ([Error_processing_building (Some 3) IndexError], None)
   \<and> process_osm_building demo_libs
        \<lparr> b_id = Some 5, b_geometry = Some [demo_node 0 0], b_tags = None \<rparr>
     = ([Error_processing_building (Some 5) (External ''WKTReadingError'')], None)
   \<and> (\<exists>r. process_osm_building demo_libs
        \<lparr> b_id = Some 4, b_geometry = Some [demo_node 0 0, demo_node 1 0], b_tags = None \<rparr>
          = ([], Some r)
        \<and> footprint_area r = 0
        \<and> footprint_wkt r = ''POLYGON((0.0 0.0, 1.0 0.0, 0.0 0.0))'')"
proof -
  let ?g1 = "[demo_node 0 0]" and ?g2 = "[demo_node 0 0, demo_node 1 0]"
  let ?b3 = "\<lparr> b_id = Some 3, b_geometry = Some [], b_tags = None \<rparr>"
  let ?b5 = "\<lparr> b_id = Some 5, b_geometry = Some ?g1, b_tags = None \<rparr>"
  let ?b4 = "\<lparr> b_id = Some 4, b_geometry = Some ?g2, b_tags = None \<rparr>"
  let ?cs = "[(0, 0), (1, 0)] :: (real \<times> real) list"
  let ?closed = "if hd ?cs \<noteq> last ?cs then ?cs @ [hd ?cs] else ?cs"
  have empty: "b_geometry ?b3 = None \<or> b_geometry ?b3 = Some []" by simp
  have one: "b_geometry ?b5 = Some ?g1
      \<and> convert_osm_to_wkt (fmt demo_libs) ?g1 = Inr ''POLYGON((0.0 0.0))''
      \<and> wkt_loads demo_libs ''POLYGON((0.0 0.0))'' = Inl (External ''WKTReadingError'')"
    by (simp add: convert_osm_to_wkt_def wkt_text_def demo_node_def demo_fmt_def
        demo_libs_def demo_loads_def)
  have text2: "wkt_text (fmt demo_libs) ?closed = ''POLYGON((0.0 0.0, 1.0 0.0, 0.0 0.0))''"
    by (simp add: wkt_text_def demo_fmt_def demo_libs_def)
  have two: "b_geometry ?b4 = Some ?g2 \<and> ?g2 \<noteq> [] \<and> length ?g2 < 3
      \<and> node_coords ?g2 = Inr ?cs
      \<and> wkt_loads demo_libs (wkt_text (fmt demo_libs) ?closed)
          = Inr \<lparr> exterior = ?closed, interiors = [] \<rparr>
      \<and> representative_point demo_libs \<lparr> exterior = ?closed, interiors = [] \<rparr>
          = Inr (1 / 4, 1 / 4)
      \<and> polygon_utm (utm_from_latlon demo_libs) ?closed
          = Inr [(0, 0), (100000, 0), (0, 0)]"
    unfolding text2
    by (simp add: demo_node_def demo_libs_def demo_loads_def flat_latlon_def)
  note dropped_empty = short_ring_outcome[of ?b3 demo_fmt demo_libs,
      THEN conjunct1, THEN mp, OF empty, THEN conjunct2]
  note dropped_one = short_ring_outcome[of ?b5 demo_fmt demo_libs ?g1 _
      "''POLYGON((0.0 0.0))''" "External ''WKTReadingError''",
      THEN conjunct2, THEN conjunct2, THEN conjunct1, THEN mp, OF one]
  note kept_two = short_ring_outcome[of ?b4 demo_fmt demo_libs ?g2 ?cs _ _
      "(1 / 4, 1 / 4)" "[(0, 0), (100000, 0), (0, 0)]",
      THEN conjunct2, THEN conjunct2, THEN conjunct2, THEN mp, OF two]
  from dropped_empty dropped_one kept_two text2 show ?thesis by simp
qed

lemma process_buildings_state:
  "process_buildings L bs (out, acc) =
     (out @ List.map_filter
        (\<lambda>b. case process_body L b of
                Inl e \<Rightarrow> Some (Error_processing_building (b_id b) e)
              | Inr r \<Rightarrow> None) bs,
      acc @ List.map_filter
        (\<lambda>b. case process_body L b of Inl e \<Rightarrow> None | Inr r \<Rightarrow> Some r) bs)"
proof (induction bs arbitrary: out acc)
  case Nil
  show ?case by (simp add: List.map_filter_simps)
next
  case (Cons b bs)
  show ?case
    by (cases "process_body L b")
       (simp_all add: Cons.IH process_osm_building_def List.map_filter_simps)
qed

text \<open>
  C8. The loop over the buildings returns exactly the records of the buildings whose
  processing succeeds, in input order, and prints exactly one line for each building
  whose processing raises, with that building's id; a failure never ends the loop.
\<close>

theorem failed_buildings_dropped_and_logged:
  "process_buildings L bs ([], []) =
     (List.map_filter
        (\<lambda>b. case process_body L b of
                Inl e \<Rightarrow> Some (Error_processing_building (b_id b) e)
              | Inr r \<Rightarrow> None) bs,
      List.map_filter
        (\<lambda>b. case process_body L b of Inl e \<Rightarrow> None | Inr r \<Rightarrow> Some r) bs)
   \<and> process_osm_building L b =
       (case process_body L b of
          Inl e \<Rightarrow> ([Error_processing_building (b_id b) e], None)
        | Inr r \<Rightarrow> ([], Some r))"
  by (simp add: process_buildings_state process_osm_building_def)


theorem failed_buildings_dropped_and_logged_witness:
  "fst (process_buildings demo_libs
     [\<lparr> b_id = Some 1, b_geometry = Some [demo_node 0 0, demo_node 1 0, demo_node 0 1],
        b_tags = None \<rparr>,
      \<lparr> b_id = Some 2, b_geometry = None, b_tags = None \<rparr>,
      \<lparr> b_id = Some 3,
        b_geometry = Some [demo_node 0 0, demo_node 1 0, demo_node 0 1, demo_node 0 0],
        b_tags = None \<rparr>] ([], []))
     = [Error_processing_building (Some 2) IndexError]
   \<and> map osm_id (snd (process_buildings demo_libs
     [\<lparr> b_id = Some 1, b_geometry = Some [demo_node 0 0, demo_node 1 0, demo_node 0 1],
        b_tags = None \<rparr>,
      \<lparr> b_id = Some 2, b_geometry = None, b_tags = None \<rparr>,
      \<lparr> b_id = Some 3,
        b_geometry = Some [demo_node 0 0, demo_node 1 0, demo_node 0 1, demo_node 0 0],
        b_tags = None \<rparr>] ([], [])))
     = [Some 1, Some 3]"
proof -
  let ?b1 = "\<lparr> b_id = Some 1, b_geometry = Some [demo_node 0 0, demo_node 1 0, demo_node 0 1],
        b_tags = None \<rparr>"
  let ?b2 = "\<lparr> b_id = Some 2, b_geometry = None, b_tags = None \<rparr>"
  let ?b3 = "\<lparr> b_id = Some 3,
        b_geometry = Some [demo_node 0 0, demo_node 1 0, demo_node 0 1, demo_node 0 0],
        b_tags = None \<rparr>"
  have p1: "\<exists>r. process_body demo_libs ?b1 = Inr r \<and> osm_id r = Some 1"
    by (simp add: process_body_def convert_osm_to_wkt_def wkt_text_def demo_node_def
        demo_fmt_def demo_libs_def demo_loads_def calculate_polygon_area_in_utm_def
        calculate_ring_area_in_utm_def flat_latlon_def Let_def)
  have p2: "process_body demo_libs ?b2 = Inl IndexError"
    by (simp add: process_body_empty)
  have p3: "\<exists>r. process_body demo_libs ?b3 = Inr r \<and> osm_id r = Some 3"
    by (simp add: process_body_def convert_osm_to_wkt_def wkt_text_def demo_node_def
        demo_fmt_def demo_libs_def demo_loads_def calculate_polygon_area_in_utm_def
        calculate_ring_area_in_utm_def flat_latlon_def Let_def)
  from p1 obtain r1 where r1: "process_body demo_libs ?b1 = Inr r1" "osm_id r1 = Some 1" by blast
  from p3 obtain r3 where r3: "process_body demo_libs ?b3 = Inr r3" "osm_id r3 = Some 3" by blast
  from failed_buildings_dropped_and_logged[of demo_libs "[?b1, ?b2, ?b3]", THEN conjunct1]
  show ?thesis
    by (simp add: List.map_filter_simps r1 p2 r3)
qed

section \<open>The pitch of the Street View camera\<close>

lemma geocentric_origin: "geocentric 0 0 h = (wgs84_a + h, 0, 0)"
  by (simp add: geocentric_def Let_def)

lemma np_norm_nonneg: "0 \<le> np_norm a"
  by (cases a) simp

lemma np_norm_zero: "np_norm a = 0 \<Longrightarrow> a = (0, 0, 0)"
proof (cases a)
  case (fields a1 a2 a3)
  assume "np_norm a = 0"
  with fields have "a1 * a1 + a2 * a2 + a3 * a3 = 0" by simp
  moreover have "0 \<le> a1 * a1" "0 \<le> a2 * a2" "0 \<le> a3 * a3" by simp_all
  ultimately have "a1 * a1 = 0" "a2 * a2 = 0" "a3 * a3 = 0" by linarith+
  with fields show ?thesis by simp
qed

lemma np_dot_zero: "np_dot (0, 0, 0) b = 0" "np_dot a (0, 0, 0) = 0"
  by (cases b, simp) (cases a, simp)

lemma np_norm_square: "np_norm a * np_norm a = np_dot a a"
  by (cases a) (simp add: sum_nonneg)

lemma get_streetview_url_cases:
  "get_streetview_url W lon lat height use_building_height pitch =
     (fst (streetview_pitch W lon lat height use_building_height pitch),
      case snd (streetview_pitch W lon lat height use_building_height pitch) of
        Inl e \<Rightarrow> Inl e
      | Inr p \<Rightarrow> Inr (Some (streetview_url_text W lon lat p)))"
  by (cases "streetview_pitch W lon lat height use_building_height pitch")
     (simp add: get_streetview_url_def split: sum.splits)

lemma streetview_pitch_height_path:
  assumes "use_building_height" "height = Some h" "h \<noteq> 0"
    and "get_streetview_camera_position W lon lat = (effs, Inr (Some (Some cam_lon, Some cam_lat)))"
  shows "streetview_pitch W lon lat height use_building_height pitch =
     (Transform lon lat 0 # effs @ [Transform cam_lon cam_lat 0, Transform lon lat h],
      Inr (np_half (np_degrees (np_arccos
        (np_div (float_div W) (np_dot (np_sub (transform W lon lat 0) (transform W cam_lon cam_lat 0))
                        (np_sub (transform W lon lat h) (transform W cam_lon cam_lat 0)))
                (np_norm (np_sub (transform W lon lat 0) (transform W cam_lon cam_lat 0))
                 * np_norm (np_sub (transform W lon lat h) (transform W cam_lon cam_lat 0))))))))"
  using assms by (simp add: streetview_pitch_def Let_def)

text \<open>
  C4. When the height is absent or zero the pitch is the one the caller supplied, and
  nothing has been done before the check: no transform, no request. When the camera
  lookup returns no position the pitch is the caller's too, and only the transform of
  the ground point and the metadata request have happened: the vectors are never formed.
\<close>

theorem fallback_uses_default_pitch:
  "(height = None \<or> height = Some 0 \<longrightarrow>
      streetview_pitch W lon lat height use_building_height pitch = ([], Inr (Num pitch))
      \<and> get_streetview_url W lon lat height use_building_height pitch
          = ([], Inr (Some (streetview_url_text W lon lat (Num pitch)))))
   \<and> (snd (get_streetview_camera_position W lon lat) = Inr None \<longrightarrow>
      snd (streetview_pitch W lon lat height use_building_height pitch) = Inr (Num pitch)
      \<and> snd (get_streetview_url W lon lat height use_building_height pitch)
          = Inr (Some (streetview_url_text W lon lat (Num pitch)))
      \<and> fst (streetview_pitch W lon lat height use_building_height pitch)
          = (if use_building_height \<and> height \<noteq> None \<and> height \<noteq> Some 0
             then [Transform lon lat 0, HttpGet (get_streetview_metadata_url W lon lat)]
             else []))"
proof (intro conjI impI)
  assume h: "height = None \<or> height = Some 0"
  then show p: "streetview_pitch W lon lat height use_building_height pitch = ([], Inr (Num pitch))"
    by (auto simp: streetview_pitch_def)
  then show "get_streetview_url W lon lat height use_building_height pitch
          = ([], Inr (Some (streetview_url_text W lon lat (Num pitch))))"
    by (simp add: get_streetview_url_def)
next
  assume c: "snd (get_streetview_camera_position W lon lat) = Inr None"
  have e: "get_streetview_camera_position W lon lat
      = ([HttpGet (get_streetview_metadata_url W lon lat)], Inr None)"
    using c by (simp add: get_streetview_camera_position_def Let_def)
  show p: "snd (streetview_pitch W lon lat height use_building_height pitch) = Inr (Num pitch)"
    by (simp add: streetview_pitch_def e)
  show "fst (streetview_pitch W lon lat height use_building_height pitch)
          = (if use_building_height \<and> height \<noteq> None \<and> height \<noteq> Some 0
             then [Transform lon lat 0, HttpGet (get_streetview_metadata_url W lon lat)]
             else [])"
    by (simp add: streetview_pitch_def e)
  from p show "snd (get_streetview_url W lon lat height use_building_height pitch)
          = Inr (Some (streetview_url_text W lon lat (Num pitch)))"
    by (cases "streetview_pitch W lon lat height use_building_height pitch")
       (simp add: get_streetview_url_def)
qed


theorem fallback_uses_default_pitch_witness:
  "streetview_pitch (demo_world (camera_reply 0 0)) 0 0 None True 30 = ([], Inr (Num 30))
   \<and> streetview_pitch (demo_world (camera_reply 0 0)) 0 0 (Some 0) True 30 = ([], Inr (Num 30))
   \<and> streetview_pitch (demo_world no_imagery_reply) 0 0 (Some 10) True 30
       = ([Transform 0 0 0,
           HttpGet (get_streetview_metadata_url (demo_world no_imagery_reply) 0 0)],
          Inr (Num 30))"
proof -
  let ?W = "demo_world (camera_reply 0 0)" and ?N = "demo_world no_imagery_reply"
  have none: "snd (get_streetview_camera_position ?N 0 0) = Inr None"
    by (simp add: get_streetview_camera_position_def demo_world_def no_imagery_reply_def)
  note absent = fallback_uses_default_pitch[of None ?W 0 0 True 30,
      THEN conjunct1, THEN mp, OF disjI1[OF refl], THEN conjunct1]
  note zero = fallback_uses_default_pitch[of "Some 0" ?W 0 0 True 30,
      THEN conjunct1, THEN mp, OF disjI2[OF refl], THEN conjunct1]
  note no_camera = fallback_uses_default_pitch[of "Some 10" ?N 0 0 True 30,
      THEN conjunct2, THEN mp, OF none]
  from absent zero no_camera show ?thesis
    by (simp add: prod_eq_iff)
qed


text \<open>
  C5, as the code has it. On the height-based path, when the vector from the observer to
  the ground point or the vector to the rooftop has length zero, no error is signalled:
  the division is \<open>0/0\<close>, its value NaN passes through the inverse cosine, the
  conversion to degrees and the halving, and the URL is returned with the pitch NaN.
\<close>

theorem degenerate_pitch_is_nan:
  assumes "use_building_height" and "height = Some h" and "h \<noteq> 0"
    and "get_streetview_camera_position W lon lat = (effs, Inr (Some (Some cam_lon, Some cam_lat)))"
    and "vec0 = np_sub (transform W lon lat 0) (transform W cam_lon cam_lat 0)"
    and "vec1 = np_sub (transform W lon lat h) (transform W cam_lon cam_lat 0)"
    and "np_norm vec0 = 0 \<or> np_norm vec1 = 0"
  shows "snd (streetview_pitch W lon lat height use_building_height pitch) = Inr NaN
       \<and> snd (get_streetview_url W lon lat height use_building_height pitch)
           = Inr (Some (streetview_url_text W lon lat NaN))"
proof -
  from assms(7) have "vec0 = (0, 0, 0) \<or> vec1 = (0, 0, 0)"
    by (auto dest: np_norm_zero)
  then have d: "np_dot vec0 vec1 = 0" by (auto simp: np_dot_zero)
  from assms(7) have n: "np_norm vec0 * np_norm vec1 = 0" by auto
  have "np_div (float_div W) (np_dot vec0 vec1) (np_norm vec0 * np_norm vec1) = NaN"
    by (simp only: d n) (simp add: np_div_def)
  then have p: "streetview_pitch W lon lat height use_building_height pitch
      = (Transform lon lat 0 # effs @ [Transform cam_lon cam_lat 0, Transform lon lat h],
         Inr NaN)"
    unfolding streetview_pitch_height_path[OF assms(1-4)] assms(5,6)[symmetric]
    by simp
  then show ?thesis by (simp add: get_streetview_url_def)
qed

theorem degenerate_pitch_counterexample:
  "snd (streetview_pitch (demo_world (camera_reply 0 0)) 0 0 (Some 10) True 30) = Inr NaN"
  by (simp add: streetview_pitch_def get_streetview_camera_position_def demo_world_def
      camera_reply_def np_div_def geocentric_origin Let_def)

theorem degenerate_pitch_is_nan_witness:
  "snd (get_streetview_url (demo_world (camera_reply 0 0)) 0 0 (Some 10) True 30)
     = Inr (Some (streetview_url_text (demo_world (camera_reply 0 0)) 0 0 NaN))"
proof -
  let ?W = "demo_world (camera_reply 0 0)"
  have cam: "get_streetview_camera_position ?W 0 0
      = ([HttpGet (get_streetview_metadata_url ?W 0 0)], Inr (Some (Some 0, Some 0)))"
    by (simp add: get_streetview_camera_position_def demo_world_def camera_reply_def)
  have v0: "(0, 0, 0) = np_sub (transform ?W 0 0 0) (transform ?W 0 0 0)"
    by (simp add: demo_world_def geocentric_origin)
  have v1: "(10, 0, 0) = np_sub (transform ?W 0 0 10) (transform ?W 0 0 0)"
    by (simp add: demo_world_def geocentric_origin)
  have h: "(10::real) \<noteq> 0" by simp
  have z: "np_norm (0, 0, 0) = 0 \<or> np_norm (10, 0, 0) = 0" by simp
  from degenerate_pitch_is_nan[OF TrueI refl h cam v0 v1 z, of 30, THEN conjunct2]
  show ?thesis .
qed

section \<open>The download of a Street View image\<close>

lemma camera_position_effects:
  "fst (get_streetview_camera_position W lon lat) = [HttpGet (get_streetview_metadata_url W lon lat)]"
  by (simp add: get_streetview_camera_position_def Let_def)

lemma streetview_pitch_no_write:
  "WriteFile p c \<notin> set (fst (streetview_pitch W lon lat height use_building_height pitch))"
proof -
  obtain effs r where g: "get_streetview_camera_position W lon lat = (effs, r)"
    by (cases "get_streetview_camera_position W lon lat")
  with camera_position_effects[of W lon lat]
  have e: "effs = [HttpGet (get_streetview_metadata_url W lon lat)]" by simp
  show ?thesis
    by (simp add: streetview_pitch_def g e Let_def split: sum.splits option.splits prod.splits)
qed

lemma streetview_url_text_nonempty: "streetview_url_text W lon lat p \<noteq> []"
  by (simp add: streetview_url_text_def)


lemma download_exit_with_url:
  assumes "get_streetview_url W lon lat height use_building_height pitch = (effs, Inr (Some url))"
    and "url \<noteq> []"
  shows "download_exit W lon lat output_path height use_building_height pitch =
     (case makedirs W (dirname W output_path) of
        Some e \<Rightarrow>
          (effs @ [MakeDirs (dirname W output_path), Print_error_downloading e],
           Inr (Handled e))
      | None \<Rightarrow>
     (case requests_get W url of
        Inl e \<Rightarrow>
          (effs @ [MakeDirs (dirname W output_path), HttpGet url, Print_error_downloading e],
           Inr (Handled e))
      | Inr response \<Rightarrow>
          if 400 \<le> status_code response \<and> status_code response < 600 then
            (effs @ [MakeDirs (dirname W output_path), HttpGet url,
                     Print_error_downloading (HTTPError (status_code response))],
             Inr (Handled (HTTPError (status_code response))))
          else if length (content response) < 5000 then
            (effs @ [MakeDirs (dirname W output_path), HttpGet url], Inr Blank_image)
          else
            (case write_file W output_path (content response) of
               Some e \<Rightarrow>
                 (effs @ [MakeDirs (dirname W output_path), HttpGet url,
                          WriteFile output_path (content response),
                          Print_error_downloading e],
                  Inr (Handled e))
             | None \<Rightarrow>
                 (effs @ [MakeDirs (dirname W output_path), HttpGet url,
                          WriteFile output_path (content response)],
                  Inr Saved))))"
  using assms by (simp add: download_exit_def Let_def)

text \<open>
  C9. When the body of the response to the image request has fewer than 5000 bytes, the
  download returns \<open>False\<close> and no file is written, whatever the status of the
  response and the outcome of \<^verbatim>\<open>os.makedirs\<close>.
\<close>

theorem small_response_is_not_available:
  assumes "snd (get_streetview_url W lon lat height use_building_height pitch) = Inr (Some url)"
    and "requests_get W url = Inr response"
    and "length (content response) < 5000"
  shows "snd (download_streetview_image W lon lat output_path height use_building_height pitch)
           = Inr False
       \<and> (\<forall>p c. WriteFile p c \<notin>
             set (fst (download_streetview_image W lon lat output_path height
                         use_building_height pitch)))"
proof -
  let ?effs = "fst (streetview_pitch W lon lat height use_building_height pitch)"
  have g: "get_streetview_url W lon lat height use_building_height pitch = (?effs, Inr (Some url))"
    using assms(1) by (simp add: get_streetview_url_cases)
  have "url = streetview_url_text W lon lat
      (projr (snd (streetview_pitch W lon lat height use_building_height pitch)))"
    using assms(1) by (auto simp: get_streetview_url_cases split: sum.splits)
  then have ne: "url \<noteq> []" by (simp add: streetview_url_text_nonempty)
  have nw: "WriteFile p c \<notin> set ?effs" for p c by (rule streetview_pitch_no_write)
  show ?thesis
    using assms(2,3) nw
    by (simp add: download_streetview_image_def download_exit_with_url[OF g ne]
        split: option.splits)
qed

theorem small_response_is_not_available_witness:
  "download_streetview_image (demo_world (image_reply 100)) 0 0 ''data/images/fixed_pitch/7.jpg''
      None False 30
     = ([MakeDirs ''data/images/fixed_pitch'',
         HttpGet (streetview_url_text (demo_world (image_reply 100)) 0 0 (Num 30))],
        Inr False)"
proof -
  let ?W = "demo_world (image_reply 100)"
  let ?url = "streetview_url_text ?W 0 0 (Num 30)"
  let ?r = "\<lparr> status_code = 200, content = replicate 100 (CHR ''x''),
              json = Inl (External ''JSONDecodeError'') \<rparr>"
  have u: "snd (get_streetview_url ?W 0 0 None False 30) = Inr (Some ?url)"
    by (simp add: get_streetview_url_def streetview_pitch_def)
  have r: "requests_get ?W ?url = Inr ?r"
    by (simp add: demo_world_def image_reply_def)
  have l: "length (content ?r) < 5000" by simp
  have e: "fst (download_streetview_image ?W 0 0 ''data/images/fixed_pitch/7.jpg'' None False 30)
      = [MakeDirs ''data/images/fixed_pitch'', HttpGet ?url]"
    by (simp add: download_streetview_image_def download_exit_def get_streetview_url_def
        streetview_pitch_def streetview_url_text_def demo_world_def image_reply_def Let_def)
  from small_response_is_not_available[OF u r l, of "''data/images/fixed_pitch/7.jpg''",
      THEN conjunct1] e
  show ?thesis by (simp add: prod_eq_iff)
qed

text \<open>
  C10, as the code has it. \<^verbatim>\<open>get_streetview_url\<close> never returns \<open>None\<close> or an empty
  string, and the download never leaves through its missing-URL branch. The builder
  returns its URL for every input that does not take the height-based path, and on the
  height-based path whenever the camera lookup returns, with no position or with a
  position of two coordinates. It does not return for every input: where the lookup
  raises, so does the builder.
\<close>

theorem url_builder_never_returns_none:
  "snd (get_streetview_url W lon lat height use_building_height pitch) \<noteq> Inr None
   \<and> snd (get_streetview_url W lon lat height use_building_height pitch) \<noteq> Inr (Some [])
   \<and> snd (download_exit W lon lat output_path height use_building_height pitch) \<noteq> Inr No_url
   \<and> (\<not> (use_building_height \<and> height \<noteq> None \<and> height \<noteq> Some 0) \<longrightarrow>
        get_streetview_url W lon lat height use_building_height pitch
          = ([], Inr (Some (streetview_url_text W lon lat (Num pitch)))))
   \<and> (snd (get_streetview_camera_position W lon lat) = Inr None
        \<or> (\<exists>x y. snd (get_streetview_camera_position W lon lat) = Inr (Some (Some x, Some y)))
        \<longrightarrow>
        (\<exists>p. snd (get_streetview_url W lon lat height use_building_height pitch)
               = Inr (Some (streetview_url_text W lon lat p))))"
proof (intro conjI impI)
  show "snd (get_streetview_url W lon lat height use_building_height pitch) \<noteq> Inr None"
    by (simp add: get_streetview_url_cases split: sum.splits)
  show "snd (get_streetview_url W lon lat height use_building_height pitch) \<noteq> Inr (Some [])"
    by (simp add: get_streetview_url_cases streetview_url_text_nonempty split: sum.splits)
  show "snd (download_exit W lon lat output_path height use_building_height pitch) \<noteq> Inr No_url"
  proof (cases "snd (streetview_pitch W lon lat height use_building_height pitch)")
    case (Inl e)
    then show ?thesis by (simp add: download_exit_def get_streetview_url_cases)
  next
    case (Inr p)
    then have "get_streetview_url W lon lat height use_building_height pitch
        = (fst (streetview_pitch W lon lat height use_building_height pitch),
           Inr (Some (streetview_url_text W lon lat p)))"
      by (simp add: get_streetview_url_cases)
    from download_exit_with_url[OF this streetview_url_text_nonempty]
    show ?thesis by (simp split: option.splits sum.splits)
  qed
next
  assume "\<not> (use_building_height \<and> height \<noteq> None \<and> height \<noteq> Some 0)"
  then show "get_streetview_url W lon lat height use_building_height pitch
          = ([], Inr (Some (streetview_url_text W lon lat (Num pitch))))"
    by (auto simp: get_streetview_url_def streetview_pitch_def)
next
  assume a: "snd (get_streetview_camera_position W lon lat) = Inr None
        \<or> (\<exists>x y. snd (get_streetview_camera_position W lon lat) = Inr (Some (Some x, Some y)))"
  obtain effs r where g: "get_streetview_camera_position W lon lat = (effs, r)"
    by (cases "get_streetview_camera_position W lon lat")
  from a g have "\<exists>p. snd (streetview_pitch W lon lat height use_building_height pitch) = Inr p"
    by (auto simp: streetview_pitch_def Let_def)
  then show "\<exists>p. snd (get_streetview_url W lon lat height use_building_height pitch)
               = Inr (Some (streetview_url_text W lon lat p))"
    by (auto simp: get_streetview_url_cases)
qed

theorem url_builder_counterexample:
  "snd (get_streetview_url (demo_world connection_error) 0 0 (Some 10) True 30)
     = Inl (External ''ConnectionError'')"
  by (simp add: get_streetview_url_def streetview_pitch_def get_streetview_camera_position_def
      demo_world_def connection_error_def Let_def)

theorem url_builder_never_returns_none_witness:
  "get_streetview_url (demo_world connection_error) 0 0 None False 30
     = ([], Inr (Some (streetview_url_text (demo_world connection_error) 0 0 (Num 30))))
   \<and> (\<exists>p. snd (get_streetview_url (demo_world no_imagery_reply) 0 0 (Some 10) True 30)
          = Inr (Some (streetview_url_text (demo_world no_imagery_reply) 0 0 p)))"
proof -
  let ?W = "demo_world connection_error" and ?N = "demo_world no_imagery_reply"
  have fixed: "\<not> (False \<and> (None::real option) \<noteq> None \<and> None \<noteq> Some (0::real))" by simp
  have none: "snd (get_streetview_camera_position ?N 0 0) = Inr None
      \<or> (\<exists>x y. snd (get_streetview_camera_position ?N 0 0) = Inr (Some (Some x, Some y)))"
    by (simp add: get_streetview_camera_position_def demo_world_def no_imagery_reply_def)
  note a = url_builder_never_returns_none[of ?W 0 0 None False 30 "[]",
      THEN conjunct2, THEN conjunct2, THEN conjunct2, THEN conjunct1, THEN mp, OF fixed]
  note b = url_builder_never_returns_none[of ?N 0 0 "Some 10" True 30 "[]",
      THEN conjunct2, THEN conjunct2, THEN conjunct2, THEN conjunct2, THEN mp, OF none]
  from a b show ?thesis by simp
qed

end
